theory Spec2Isabelle
  imports Complex_Main "HOL-Library.Sublist" "HOL-Library.Log_Nat"
begin

section \<open>Python values the script handles\<close>

text \<open>
  A Python \<open>str\<close> is a sequence of Unicode code points, so it is modelled as a list of
  natural numbers (one per code point); \<open>len\<close> is \<open>length\<close>, \<open>+\<close> is \<open>@\<close>.
  \<open>S\<close> embeds an ASCII literal. Text of the source that is not ASCII is written as the
  list of its code points.
\<close>

type_synonym pystr = "nat list"

definition S :: "string \<Rightarrow> pystr" where
  "S cs = map of_char cs"

definition SEP :: nat where \<comment> \<open>the character \<open>/\<close>\<close>
  "SEP = 47"

definition DOT :: nat where \<comment> \<open>the character \<open>.\<close>\<close>
  "DOT = 46"

definition NL :: nat where \<comment> \<open>the character \<open>\n\<close>\<close>
  "NL = 10"

text \<open>\<open>a in b\<close> on strings: \<open>a\<close> occurs in \<open>b\<close> as a contiguous run.\<close>

definition str_in :: "pystr \<Rightarrow> pystr \<Rightarrow> bool" where
  "str_in a b = sublist a b"

text \<open>
  An exception is its class name and the text \<open>str(e)\<close> gives. Only classes below
  \<open>Exception\<close> are modelled (the ones \<open>except Exception\<close> catches).
\<close>

datatype pyexc = PyExc (exc_type: string) (exc_msg: pystr)

section \<open>pathlib, as far as the script uses it\<close>

text \<open>
  \<open>pathlib.Path\<close> on a POSIX system (CPython 3.11): a path is its root (\<open>''''\<close>,
  \<open>/\<close> or \<open>//\<close>) and the list of its components after the root.
\<close>

datatype path = PosixPath (path_root: pystr) (path_tail: "pystr list")

text \<open>\<open>str.split('/')\<close>\<close>

fun split_sep :: "pystr \<Rightarrow> pystr list" where
  "split_sep [] = [[]]"
| "split_sep (c # cs) =
     (if c = SEP then [] # split_sep cs
      else (case split_sep cs of [] \<Rightarrow> [[c]] | w # ws \<Rightarrow> (c # w) # ws))"

text \<open>\<open>'/'.join(xs)\<close>\<close>

fun join_sep :: "pystr list \<Rightarrow> pystr" where
  "join_sep [] = []"
| "join_sep [x] = x"
| "join_sep (x # y # ys) = x @ SEP # join_sep (y # ys)"

text \<open>
  \<open>_PosixFlavour.splitroot\<close>: exactly two leading slashes are kept as the root \<open>//\<close>,
  any other number of them is the root \<open>/\<close>.
\<close>

definition splitroot :: "pystr \<Rightarrow> pystr \<times> pystr" where
  "splitroot part =
     (if part \<noteq> [] \<and> hd part = SEP then
        (let stripped_part = dropWhile (\<lambda>c. c = SEP) part in
         if length part - length stripped_part = 2 then ([SEP, SEP], stripped_part)
         else ([SEP], stripped_part))
      else ([], part))"

text \<open>\<open>Path(s)\<close>: empty components and \<open>.\<close> components are dropped.\<close>

definition Path :: "pystr \<Rightarrow> path" where
  "Path s = (case splitroot s of (rt, rel) \<Rightarrow>
     PosixPath rt (filter (\<lambda>x. x \<noteq> [] \<and> x \<noteq> [DOT]) (split_sep rel)))"

text \<open>\<open>p / s\<close>: an absolute right operand replaces the left one.\<close>

definition joinpath :: "path \<Rightarrow> pystr \<Rightarrow> path" where
  "joinpath p s = (let q = Path s in
     if path_root q \<noteq> [] then q
     else PosixPath (path_root p) (path_tail p @ path_tail q))"

text \<open>\<open>str(p)\<close>\<close>

definition path_str :: "path \<Rightarrow> pystr" where
  "path_str p =
     (let s = path_root p @ join_sep (path_tail p) in if s = [] then [DOT] else s)"

text \<open>\<open>p.name\<close>, \<open>p.parent\<close>\<close>

definition path_name :: "path \<Rightarrow> pystr" where
  "path_name p = (if path_tail p = [] then [] else last (path_tail p))"

definition path_parent :: "path \<Rightarrow> path" where
  "path_parent p = PosixPath (path_root p) (butlast (path_tail p))"

text \<open>\<open>name.rfind(c)\<close>, with \<open>None\<close> for \<open>-1\<close>\<close>

fun rfind :: "nat \<Rightarrow> pystr \<Rightarrow> nat option" where
  "rfind c [] = None"
| "rfind c (x # xs) =
     (case rfind c xs of
        Some i \<Rightarrow> Some (Suc i)
      | None \<Rightarrow> if x = c then Some 0 else None)"

text \<open>
  \<open>p.suffix\<close> and \<open>p.stem\<close>: the name is cut at its last dot, unless that dot is the
  first or the last character of the name.
\<close>

definition path_suffix :: "path \<Rightarrow> pystr" where
  "path_suffix p = (let name = path_name p in
     case rfind DOT name of
       Some i \<Rightarrow> if 0 < i \<and> i < length name - 1 then drop i name else []
     | None \<Rightarrow> [])"

definition path_stem :: "path \<Rightarrow> pystr" where
  "path_stem p = (let name = path_name p in
     case rfind DOT name of
       Some i \<Rightarrow> if 0 < i \<and> i < length name - 1 then take i name else name
     | None \<Rightarrow> name)"

text \<open>
  \<open>p.with_suffix(suf)\<close> raises \<open>ValueError\<close> on a malformed suffix and on a path with
  an empty name (\<open>.\<close>, \<open>/\<close>, \<open>//\<close>); the message of the latter shows the path.
\<close>

definition with_suffix :: "path \<Rightarrow> pystr \<Rightarrow> pyexc + path" where
  "with_suffix p suf =
     (if SEP \<in> set suf then
        Inl (PyExc ''ValueError'' (S ''Invalid suffix '' @ [39] @ suf @ [39]))
      else if (suf \<noteq> [] \<and> hd suf \<noteq> DOT) \<or> suf = [DOT] then
        Inl (PyExc ''ValueError'' (S ''Invalid suffix '' @ [39] @ suf @ [39]))
      else
        let name = path_name p in
        if name = [] then
          Inl (PyExc ''ValueError''
                 (S ''PosixPath('' @ [39] @ path_str p @ [39] @ S '') has an empty name''))
        else
          let old_suffix = path_suffix p;
              name' = (if old_suffix = [] then name @ suf
                       else take (length name - length old_suffix) name @ suf)
          in Inr (PosixPath (path_root p) (butlast (path_tail p) @ [name'])))"

section \<open>The file system\<close>

text \<open>
  What \<open>os.stat\<close> answers for a path: \<open>None\<close> when nothing is there, otherwise the
  \<open>st_size\<close> of what is. The state is not changed by looking at it.
\<close>

type_synonym filesystem = "path \<Rightarrow> nat option"

definition path_exists :: "filesystem \<Rightarrow> path \<Rightarrow> bool" where
  "path_exists fs p = (fs p \<noteq> None)"

definition stat_st_size :: "filesystem \<Rightarrow> path \<Rightarrow> nat" where
  "stat_st_size fs p = (case fs p of Some n \<Rightarrow> n | None \<Rightarrow> 0)"

section \<open>Subtitle discovery (download_video, lines 118 to 131)\<close>

definition subtitle_exts :: "pystr list" where
  "subtitle_exts = [S ''.en.vtt'', S ''.vtt'']"

text \<open>
  The \<open>for ext in subtitle_exts\<close> loop: \<open>Inr (Some p)\<close> is the \<open>break\<close> with
  \<open>subtitle_path = p\<close>, \<open>Inr None\<close> the loop running out with \<open>subtitle_path\<close> still
  \<open>None\<close>, \<open>Inl e\<close> the exception \<open>with_suffix\<close> raises.
\<close>

fun find_subtitle :: "filesystem \<Rightarrow> path \<Rightarrow> pystr list \<Rightarrow> pyexc + path option" where
  "find_subtitle fs video_path [] = Inr None"
| "find_subtitle fs video_path (ext # exts) =
     (case with_suffix video_path ext of
        Inl e \<Rightarrow> Inl e
      | Inr potential_sub0 \<Rightarrow>
          let potential_sub =
                (if \<not> path_exists fs potential_sub0 then
                   (let stem = path_stem video_path in
                    joinpath (path_parent video_path) (stem @ S ''.en.vtt''))
                 else potential_sub0)
          in if path_exists fs potential_sub then Inr (Some potential_sub)
             else find_subtitle fs video_path exts)"

text \<open>
  The file next to the video whose name is the video's stem followed by \<open>ext\<close>:
  \<open><id>.en.vtt\<close> and \<open><id>.vtt\<close> for a video \<open><id>.mp4\<close>.
\<close>

definition sibling :: "path \<Rightarrow> pystr \<Rightarrow> path" where
  "sibling video_path ext =
     PosixPath (path_root video_path)
       (butlast (path_tail video_path) @ [path_stem video_path @ ext])"

text \<open>
  The simpler search the loop is compared with: look at \<open><id>.en.vtt\<close> first and at
  \<open><id>.vtt\<close> second, and return the first of the two that exists, or \<open>None\<close>.
  Each name is formed once, by \<open>with_suffix\<close>.
\<close>

definition simple_find_subtitle :: "filesystem \<Rightarrow> path \<Rightarrow> pyexc + path option" where
  "simple_find_subtitle fs video_path =
     (case with_suffix video_path (S ''.en.vtt'') of
        Inl e \<Rightarrow> Inl e
      | Inr en_vtt \<Rightarrow>
          if path_exists fs en_vtt then Inr (Some en_vtt)
          else (case with_suffix video_path (S ''.vtt'') of
                  Inl e \<Rightarrow> Inl e
                | Inr vtt \<Rightarrow> if path_exists fs vtt then Inr (Some vtt) else Inr None))"

section \<open>Numbers and their text\<close>

text \<open>\<open>str(n)\<close> for an integer: decimal digits, a minus sign when negative.\<close>

fun str_nat :: "nat \<Rightarrow> pystr" where
  "str_nat n = (if n < 10 then [48 + n] else str_nat (n div 10) @ [48 + n mod 10])"

declare str_nat.simps [simp del]

definition str_int :: "int \<Rightarrow> pystr" where
  "str_int i = (if i < 0 then 45 # str_nat (nat (- i)) else str_nat (nat i))"

text \<open>
  The values the script meets in the dictionaries of the retrieval library and puts into
  its result: \<open>None\<close>, integers and strings.
\<close>

datatype pyval = VNone | VInt int | VStr pystr

fun py_str :: "pyval \<Rightarrow> pystr" where \<comment> \<open>\<open>str(v)\<close>, as an f-string renders \<open>{v}\<close>\<close>
  "py_str VNone = S ''None''"
| "py_str (VInt i) = str_int i"
| "py_str (VStr s) = s"

text \<open>\<open>d.get(key, default)\<close> on a dictionary with string keys.\<close>

type_synonym pydict = "string \<Rightarrow> pyval option"

definition dict_get :: "pydict \<Rightarrow> string \<Rightarrow> pyval \<Rightarrow> pyval" where
  "dict_get d k dflt = (case d k of Some v \<Rightarrow> v | None \<Rightarrow> dflt)"

text \<open>
  A number handed to \<open>format_file_size\<close>: an \<open>int\<close>, or a \<open>float\<close> given by the
  rational it denotes.
\<close>

datatype pynum = PyInt int | PyFloat rat

definition truthy :: "pynum \<Rightarrow> bool" where
  "truthy n = (case n of PyInt i \<Rightarrow> i \<noteq> 0 | PyFloat r \<Rightarrow> r \<noteq> 0)"

subsection \<open>Floating point\<close>

text \<open>
  A Python \<open>float\<close> is an IEEE 754 binary64 number. The progress hook only computes
  with numbers that are not negative, so a float is modelled as the rational it denotes,
  or infinity. Every operation gives the exact result rounded to the nearest float, ties
  to the even significand: 53 significant bits, exponents from \<open>-1022\<close> (below that the
  spacing stays \<open>2 powi -1074\<close>) up to overflow at \<open>2 powi 1024\<close>.
\<close>

datatype pyfloat = Finite rat | Infinity

definition round_half_even :: "rat \<Rightarrow> int" where
  "round_half_even x =
     (let n = \<lfloor>x\<rfloor>; r = x - of_int n in
      if r < 1 / 2 then n
      else if 1 / 2 < r then n + 1
      else if even n then n else n + 1)"

text \<open>\<open>binade x\<close> is the exponent \<open>e\<close> with \<open>2 powi e \<le> x < 2 powi (e + 1)\<close>, for \<open>x > 0\<close>.\<close>

definition binade :: "rat \<Rightarrow> int" where
  "binade x =
     (case quotient_of x of (p, q) \<Rightarrow>
        let k = int (floorlog 2 (nat p)) - int (floorlog 2 (nat q)) in
        if 2 powi k \<le> x then k else k - 1)"

definition round_double :: "rat \<Rightarrow> pyfloat" where
  "round_double x =
     (if x = 0 then Finite 0
      else
        let e = max (binade x) (- 1022);
            ulp = 2 powi (e - 52);
            y = of_int (round_half_even (x / ulp)) * ulp
        in if 2 powi 1024 \<le> y then Infinity else Finite y)"

text \<open>
  \<open>a / b\<close> on two \<open>int\<close>s is the correctly rounded quotient and raises where it would
  overflow; \<open>x * c\<close> and \<open>x / c\<close> on a float and a positive constant overflow to infinity;
  \<open>int(x)\<close> truncates and raises on infinity.
\<close>

definition int_true_div :: "nat \<Rightarrow> nat \<Rightarrow> pyexc + pyfloat" where
  "int_true_div a b =
     (if b = 0 then Inl (PyExc ''ZeroDivisionError'' (S ''division by zero''))
      else (case round_double (of_nat a / of_nat b) of
              Infinity \<Rightarrow>
                Inl (PyExc ''OverflowError'' (S ''integer division result too large for a float''))
            | Finite v \<Rightarrow> Inr (Finite v)))"

definition float_mul :: "pyfloat \<Rightarrow> rat \<Rightarrow> pyfloat" where
  "float_mul x c = (case x of Infinity \<Rightarrow> Infinity | Finite v \<Rightarrow> round_double (v * c))"

definition float_div :: "pyfloat \<Rightarrow> rat \<Rightarrow> pyfloat" where
  "float_div x c = (case x of Infinity \<Rightarrow> Infinity | Finite v \<Rightarrow> round_double (v / c))"

definition float_to_int :: "pyfloat \<Rightarrow> pyexc + int" where
  "float_to_int x =
     (case x of
        Infinity \<Rightarrow> Inl (PyExc ''OverflowError'' (S ''cannot convert float infinity to integer''))
      | Finite v \<Rightarrow> Inr \<lfloor>v\<rfloor>)"

text \<open>
  \<open>f"{x:.1f}"\<close>: the decimal with one digit after the point that is nearest to the exact
  value of the float, ties to even.
\<close>

definition format_1f :: "pyfloat \<Rightarrow> pystr" where
  "format_1f x =
     (case x of
        Infinity \<Rightarrow> S ''inf''
      | Finite v \<Rightarrow>
          let n = nat (round_half_even (v * 10))
          in str_nat (n div 10) @ S ''.'' @ str_nat (n mod 10))"

section \<open>What the script imports\<close>

text \<open>
  The module \<open>utils\<close> of the repository is not among the sources, so its functions are
  parameters of the model. \<open>validate_url\<close> answers yes or no; the two formatters return a
  string or raise; \<open>ensure_directory\<close> returns a path or raises, and may change the file
  system.
\<close>

record os_state =
  files :: filesystem
  cwd :: path

record utils =
  validate_url :: "pystr \<Rightarrow> bool"
  format_file_size :: "pynum \<Rightarrow> pyexc + pystr"
  get_video_duration_display :: "pyval \<Rightarrow> pyexc + pystr"
  ensure_directory :: "path \<Rightarrow> os_state \<Rightarrow> (pyexc + path) \<times> os_state"

text \<open>
  Standard output is the list of the texts written to it, in order. \<open>print(s)\<close> writes
  \<open>s\<close> and a newline.
\<close>

definition print :: "pystr \<Rightarrow> pystr" where
  "print s = s @ [NL]"

section \<open>The progress hook (_progress_hook, lines 180 to 209)\<close>

text \<open>
  The dictionary \<open>d\<close> the retrieval library hands to the hook. \<open>status\<close> is always
  there; a byte count is a natural number or missing; \<open>speed\<close> is a number, or missing
  or \<open>None\<close> (both \<open>None\<close> here: \<open>d.get("speed", 0)\<close> is then not truthy).
\<close>

record progress =
  status :: pystr
  downloaded_bytes :: "nat option"
  total_bytes :: "nat option"
  speed :: "pynum option"

text \<open>Lines 188 to 189 and 204 to 205: the text for the speed.\<close>

definition speed_str_of :: "utils \<Rightarrow> progress \<Rightarrow> pyexc + pystr" where
  "speed_str_of U d =
     (case speed d of
        None \<Rightarrow> Inr (S ''N/A'')
      | Some v \<Rightarrow>
          if truthy v then
            (case format_file_size U v of
               Inl e \<Rightarrow> Inl e
             | Inr s \<Rightarrow> Inr (s @ S ''/s''))
          else Inr (S ''N/A''))"

text \<open>Lines 192 to 194: the bar for a number of filled segments.\<close>

definition bar_length :: int where
  "bar_length = 30"

definition progress_bar :: "int \<Rightarrow> pystr" where
  "progress_bar filled =
     replicate (nat filled) 0x2588 @ replicate (nat (bar_length - filled)) 0x2591"

text \<open>
  The hook returns what it writes to standard output, or the exception it raises.
\<close>

definition progress_hook :: "utils \<Rightarrow> progress \<Rightarrow> pyexc + pystr list" where
  "progress_hook U d =
     (if status d = S ''downloading'' then
        (case (downloaded_bytes d, total_bytes d) of
           (Some db, Some tb) \<Rightarrow>
             if tb \<noteq> 0 then
               (case int_true_div db tb of
                  Inl e \<Rightarrow> Inl e
                | Inr q \<Rightarrow>
                    let percent = float_mul q 100 in
                    (case format_file_size U (PyInt (int db)) of
                       Inl e \<Rightarrow> Inl e
                     | Inr downloaded \<Rightarrow>
                    (case format_file_size U (PyInt (int tb)) of
                       Inl e \<Rightarrow> Inl e
                     | Inr total_str \<Rightarrow>
                    (case speed_str_of U d of
                       Inl e \<Rightarrow> Inl e
                     | Inr speed_str \<Rightarrow>
                    (case float_to_int (float_div (float_mul percent (of_int bar_length)) 100) of
                       Inl e \<Rightarrow> Inl e
                     | Inr filled \<Rightarrow>
                         Inr [[13] @ S ''   ['' @ progress_bar filled @ S ''] ''
                              @ format_1f percent @ S ''% - '' @ downloaded @ S ''/'' @ total_str
                              @ S '' - '' @ speed_str])))))
             else
               (case format_file_size U (PyInt (int db)) of
                  Inl e \<Rightarrow> Inl e
                | Inr downloaded \<Rightarrow>
               (case speed_str_of U d of
                  Inl e \<Rightarrow> Inl e
                | Inr speed_str \<Rightarrow>
                    Inr [[13] @ S ''   '' @ [0x4E0B, 0x8F7D, 0x4E2D] @ S ''... '' @ downloaded
                         @ S '' - '' @ speed_str]))
         | (Some db, None) \<Rightarrow>
             (case format_file_size U (PyInt (int db)) of
                Inl e \<Rightarrow> Inl e
              | Inr downloaded \<Rightarrow>
             (case speed_str_of U d of
                Inl e \<Rightarrow> Inl e
              | Inr speed_str \<Rightarrow>
                  Inr [[13] @ S ''   '' @ [0x4E0B, 0x8F7D, 0x4E2D] @ S ''... '' @ downloaded
                       @ S '' - '' @ speed_str]))
         | (None, _) \<Rightarrow> Inr [])
      else if status d = S ''finished'' then Inr [[NL]]
      else Inr [])"

section \<open>The retrieval library\<close>

text \<open>
  \<open>yt_dlp\<close> is an external library: the model takes it as a parameter. Constructing
  \<open>YoutubeDL(ydl_opts)\<close> gives an object with the two methods the script calls, or
  raises. Every call into the library may write to standard output and change the file
  system; it cannot read standard output back. Entering and leaving the \<open>with\<close> block
  is taken to do nothing the script can see.
\<close>

record ydl_opts =
  outtmpl :: pystr
  writesubtitles :: bool
  writeautomaticsub :: bool
  subtitleslangs :: "pystr list"
  subtitlesformat :: pystr
  writethumbnail :: bool
  quiet :: bool
  no_warnings :: bool
  progress_hooks :: "(progress \<Rightarrow> pyexc + pystr list) list"
  format :: pystr
  merge_output_format :: pystr
  cookiefile :: "pystr option"
  cookiesfrombrowser :: "pystr list option"

record YoutubeDL =
  extract_info :: "pystr \<Rightarrow> bool \<Rightarrow> os_state \<Rightarrow> (pyexc + pydict) \<times> pystr list \<times> os_state"
  prepare_filename :: "pydict \<Rightarrow> pyexc + pystr"

type_synonym yt_dlp = "ydl_opts \<Rightarrow> os_state \<Rightarrow> (pyexc + YoutubeDL) \<times> pystr list \<times> os_state"

section \<open>download_video (lines 27 to 177)\<close>

record download_result =
  video_path :: pystr
  subtitle_path :: "pystr option"
  title :: pyval
  duration :: pyval
  file_size :: nat
  video_id :: pyval

text \<open>Lines 52 to 56: the directory asked for.\<close>

definition requested_dir :: "pystr option \<Rightarrow> os_state \<Rightarrow> path" where
  "requested_dir output_dir st = (case output_dir of None \<Rightarrow> cwd st | Some d \<Rightarrow> Path d)"

text \<open>Lines 60 to 62.\<close>

definition announce :: "pystr \<Rightarrow> path \<Rightarrow> pystr list" where
  "announce url output_dir =
     [print ([0x1F3AC] @ S '' '' @ [0x5F00, 0x59CB, 0x4E0B, 0x8F7D, 0x89C6, 0x9891] @ S ''...''),
      print (S ''   URL: '' @ url),
      print (S ''   '' @ [0x8F93, 0x51FA, 0x76EE, 0x5F55] @ S '': '' @ path_str output_dir)]"

text \<open>Lines 66 to 69: where the cookie file is looked for.\<close>

definition find_cookies_file :: "path \<Rightarrow> os_state \<Rightarrow> path" where
  "find_cookies_file output_dir st =
     (let cookies_file = joinpath output_dir (S ''cookies.txt'') in
      if \<not> path_exists (files st) cookies_file then joinpath (cwd st) (S ''cookies.txt'')
      else cookies_file)"

text \<open>Lines 72 to 84: the options every download gets.\<close>

definition base_opts :: "utils \<Rightarrow> path \<Rightarrow> ydl_opts" where
  "base_opts U output_dir =
     \<lparr> outtmpl = path_str (joinpath output_dir (S ''%(id)s.%(ext)s'')),
       writesubtitles = True,
       writeautomaticsub = True,
       subtitleslangs = [S ''en''],
       subtitlesformat = S ''vtt'',
       writethumbnail = False,
       quiet = False,
       no_warnings = False,
       progress_hooks = [progress_hook U],
       format = S ''bv*+ba/b'',
       merge_output_format = S ''mp4'',
       cookiefile = None,
       cookiesfrombrowser = None \<rparr>"

text \<open>Lines 65 to 94: the options handed to the library, and what is printed on the way.\<close>

definition configure :: "utils \<Rightarrow> path \<Rightarrow> os_state \<Rightarrow> ydl_opts \<times> pystr list" where
  "configure U output_dir st =
     (let cookies_file = find_cookies_file output_dir st;
          opts = base_opts U output_dir
      in if path_exists (files st) cookies_file then
           (opts\<lparr>cookiefile := Some (path_str cookies_file)\<rparr>,
            [print ([0x1F36A] @ S '' '' @ [0x4F7F, 0x7528] @ S '' cookies.txt: ''
                    @ path_name cookies_file)])
         else
           (opts\<lparr>cookiesfrombrowser := Some [S ''chrome'']\<rparr>,
            [print ([0x1F36A] @ S '' '' @ [0x5C1D, 0x8BD5, 0x4ECE] @ S '' Chrome ''
                    @ [0x6D4F, 0x89C8, 0x5668, 0x83B7, 0x53D6] @ S '' Cookies...''),
             print (S ''   '' @ [0x26A0, 0xFE0F] @ S ''  '' @ [0x6CE8, 0x610F] @ S '': macOS ''
                    @ [0x53EF, 0x80FD, 0x4F1A, 0x5F39, 0x51FA, 0x7A97, 0x53E3, 0x8BF7, 0x6C42,
                       0x8BBF, 0x95EE]
                    @ S '' '' @ [0x27] @ S ''Chrome Safe Storage'' @ [0x27]),
             print (S ''   '' @ [0x26A0, 0xFE0F] @ S ''  '' @ [0x8BF7, 0x70B9, 0x51FB] @ S '' ''
                    @ [0x27, 0x59CB, 0x7EC8, 0x5141, 0x8BB8, 0x27] @ S '' '' @ [0x6216] @ S '' ''
                    @ [0x27, 0x5141, 0x8BB8, 0x27, 0xFF0C, 0x5426, 0x5219, 0x811A, 0x672C,
                       0x5C06, 0x5361, 0x4F4F])]))"

text \<open>Lines 146 to 147.\<close>

definition no_subtitle_warning :: "pystr list" where
  "no_subtitle_warning =
     [print ([0x26A0, 0xFE0F] @ S ''  ''
        @ [0x672A, 0x627E, 0x5230, 0x82F1, 0x6587, 0x5B57, 0x5E55]),
      print (S ''   ''
        @ [0x63D0, 0x793A, 0xFF1A, 0x67D0, 0x4E9B, 0x89C6, 0x9891, 0x53EF,
           0x80FD, 0x6CA1, 0x6709, 0x5B57, 0x5E55, 0x6216, 0x9700, 0x8981,
           0x81EA, 0x52A8, 0x751F, 0x6210])]"

text \<open>
  Lines 114 to 156: once the download has returned the name of the video file, find the
  files and build the result. Nothing here changes the file system.
\<close>

definition collect_result ::
  "utils \<Rightarrow> filesystem \<Rightarrow> pyval \<Rightarrow> pyval \<Rightarrow> pyval \<Rightarrow> pystr \<Rightarrow> (pyexc + download_result) \<times> pystr list"
where
  "collect_result U fs title0 duration0 video_id0 video_filename =
     (let video_path0 = Path video_filename in
      case find_subtitle fs video_path0 subtitle_exts of
        Inl e \<Rightarrow> (Inl e, [])
      | Inr subtitle_path0 \<Rightarrow>
          let file_size0 = (if path_exists fs video_path0 then stat_st_size fs video_path0 else 0)
          in
          if \<not> path_exists fs video_path0 then
            (Inl (PyExc ''Exception'' (S ''Video file not found after download'')), [])
          else
            let out1 = [print ([NL, 0x2705] @ S '' ''
                          @ [0x89C6, 0x9891, 0x4E0B, 0x8F7D, 0x5B8C, 0x6210] @ S '': ''
                          @ path_name video_path0)]
            in
            (case format_file_size U (PyInt (int file_size0)) of
               Inl e \<Rightarrow> (Inl e, out1)
             | Inr size_str \<Rightarrow>
                 let out2 = [print (S ''   '' @ [0x5927, 0x5C0F] @ S '': '' @ size_str)];
                     out3 =
                       (case subtitle_path0 of
                          None \<Rightarrow> no_subtitle_warning
                        | Some sp \<Rightarrow>
                            if path_exists fs sp then
                              [print ([0x2705] @ S '' ''
                                 @ [0x5B57, 0x5E55, 0x4E0B, 0x8F7D, 0x5B8C, 0x6210] @ S '': ''
                                 @ path_name sp)]
                            else no_subtitle_warning)
                 in (Inr \<lparr> video_path = path_str video_path0,
                           subtitle_path = map_option path_str subtitle_path0,
                           title = title0,
                           duration = duration0,
                           file_size = file_size0,
                           video_id = video_id0 \<rparr>,
                     out1 @ out2 @ out3)))"

text \<open>Lines 97 to 156: the body of the \<open>try\<close>.\<close>

definition download_video_try ::
  "utils \<Rightarrow> yt_dlp \<Rightarrow> pystr \<Rightarrow> ydl_opts \<Rightarrow> os_state
     \<Rightarrow> (pyexc + download_result) \<times> pystr list \<times> os_state"
where
  "download_video_try U Y url opts st =
     (case Y opts st of
        (Inl e, o0, st0) \<Rightarrow> (Inl e, o0, st0)
      | (Inr ydl, o0, st0) \<Rightarrow>
          let o1 = [print ([NL, 0x1F4CA] @ S '' ''
                      @ [0x83B7, 0x53D6, 0x89C6, 0x9891, 0x4FE1, 0x606F] @ S ''...'')]
          in
          (case extract_info ydl url False st0 of
             (Inl e, o2, st1) \<Rightarrow> (Inl e, o0 @ o1 @ o2, st1)
           | (Inr info, o2, st1) \<Rightarrow>
               let title0 = dict_get info ''title'' (VStr (S ''Unknown''));
                   duration0 = dict_get info ''duration'' (VInt 0);
                   video_id0 = dict_get info ''id'' (VStr (S ''unknown''));
                   o3 = [print (S ''   '' @ [0x6807, 0x9898] @ S '': '' @ py_str title0)]
               in
               (case get_video_duration_display U duration0 of
                  Inl e \<Rightarrow> (Inl e, o0 @ o1 @ o2 @ o3, st1)
                | Inr duration_str \<Rightarrow>
                    let o4 = [print (S ''   '' @ [0x65F6, 0x957F] @ S '': '' @ duration_str),
                              print (S ''   '' @ [0x89C6, 0x9891] @ S ''ID: '' @ py_str video_id0),
                              print ([NL, 0x1F4E5] @ S '' '' @ [0x5F00, 0x59CB, 0x4E0B, 0x8F7D]
                                     @ S ''...'')];
                        before = o0 @ o1 @ o2 @ o3 @ o4
                    in
                    (case extract_info ydl url True st1 of
                       (Inl e, o5, st2) \<Rightarrow> (Inl e, before @ o5, st2)
                     | (Inr info', o5, st2) \<Rightarrow>
                         (case prepare_filename ydl info' of
                            Inl e \<Rightarrow> (Inl e, before @ o5, st2)
                          | Inr video_filename \<Rightarrow>
                              (case collect_result U (files st2) title0 duration0 video_id0
                                      video_filename of
                                 (r, o6) \<Rightarrow> (r, before @ o5 @ o6, st2)))))))"

text \<open>
  Lines 158 to 177: what the \<open>except\<close> clause prints before it raises the exception
  again.
\<close>

definition needs_cookie_advice :: "pystr \<Rightarrow> bool" where
  "needs_cookie_advice error_msg =
     (str_in (S ''Sign in to confirm'') error_msg
      \<or> str_in (S ''Requested format is not available'') error_msg
      \<or> str_in (S ''Only images are available'') error_msg)"

definition cookie_advice :: "path \<Rightarrow> pystr list" where
  "cookie_advice output_dir =
     [print ([NL, 0x1F4A1] @ S '' '' @ [0x5EFA, 0x8BAE, 0x89E3, 0x51B3, 0x65B9, 0x6848] @ S '':''),
      print (S ''1. '' @ [0x786E, 0x4FDD] @ S '' Chrome ''
             @ [0x6D4F, 0x89C8, 0x5668, 0x5DF2, 0x5173, 0x95ED, 0xFF08] @ S ''yt-dlp ''
             @ [0x9700, 0x8981, 0x8BBF, 0x95EE] @ S '' Cookie '' @ [0x6570, 0x636E, 0x5E93, 0xFF09]),
      print (S ''2. '' @ [0x63A8, 0x8350, 0xFF1A, 0x624B, 0x52A8, 0x5BFC, 0x51FA] @ S '' Cookies ''
             @ [0x6587, 0x4EF6]),
      print (S ''   a. '' @ [0x5728] @ S '' Chrome '' @ [0x5B89, 0x88C5] @ S '' '' @ [0x27]
             @ S ''Get cookies.txt LOCALLY'' @ [0x27] @ S '' '' @ [0x63D2, 0x4EF6]),
      print (S ''   b. '' @ [0x8BBF, 0x95EE] @ S '' YouTube '' @ [0x5E76, 0x767B, 0x5F55]),
      print (S ''   c. '' @ [0x70B9, 0x51FB, 0x63D2, 0x4EF6, 0x5BFC, 0x51FA] @ S '' cookies.txt''),
      print (S ''   d. '' @ [0x5C06, 0x6587, 0x4EF6, 0x4FDD, 0x5B58, 0x5230] @ S '': ''
             @ path_str output_dir @ S ''/cookies.txt''),
      print (S ''   e. '' @ [0x91CD, 0x65B0, 0x8FD0, 0x884C, 0x6B64, 0x811A, 0x672C])]"

definition failure_line :: "pystr \<Rightarrow> pystr" where
  "failure_line error_msg =
     print ([NL, 0x274C] @ S '' '' @ [0x4E0B, 0x8F7D, 0x5931, 0x8D25] @ S '': '' @ error_msg)"

definition download_video_except :: "path \<Rightarrow> pyexc \<Rightarrow> pystr list" where
  "download_video_except output_dir e =
     (let error_msg = exc_msg e in
      [failure_line error_msg]
      @ (if needs_cookie_advice error_msg then cookie_advice output_dir else []))"

text \<open>Lines 96 to 177: the \<open>try\<close> statement.\<close>

definition retrieve ::
  "utils \<Rightarrow> yt_dlp \<Rightarrow> pystr \<Rightarrow> path \<Rightarrow> ydl_opts \<Rightarrow> os_state
     \<Rightarrow> (pyexc + download_result) \<times> pystr list \<times> os_state"
where
  "retrieve U Y url output_dir opts st =
     (case download_video_try U Y url opts st of
        (Inr result, out, st') \<Rightarrow> (Inr result, out, st')
      | (Inl e, out, st') \<Rightarrow> (Inl e, out @ download_video_except output_dir e, st'))"

text \<open>
  The whole function: the result or the exception, what was written to standard output,
  and the state of the file system afterwards.
\<close>

definition download_video ::
  "utils \<Rightarrow> yt_dlp \<Rightarrow> pystr \<Rightarrow> pystr option \<Rightarrow> os_state
     \<Rightarrow> (pyexc + download_result) \<times> pystr list \<times> os_state"
where
  "download_video U Y url output_dir st =
     (if \<not> validate_url U url then
        (Inl (PyExc ''ValueError'' (S ''Invalid YouTube URL: '' @ url)), [], st)
      else
        (case ensure_directory U (requested_dir output_dir st) st of
           (Inl e, st1) \<Rightarrow> (Inl e, [], st1)
         | (Inr output_dir1, st1) \<Rightarrow>
             (case configure U output_dir1 st1 of
                (opts, o1) \<Rightarrow>
                  (case retrieve U Y url output_dir1 opts st1 of
                     (r, o2, st2) \<Rightarrow> (r, announce url output_dir1 @ o1 @ o2, st2)))))"

text \<open>
  Lines 48 to 115 once more, without the printing: everything \<open>download_video\<close> does up
  to the name of the downloaded file. \<open>Inr\<close> holds the output directory, the metadata of
  the probe, the file name \<open>prepare_filename\<close> gave and the state after the download;
  \<open>Inl\<close> the exception that ended the call before. It is used to say, in one condition,
  that the retrieval returned without raising.
\<close>

definition retrieval_phase ::
  "utils \<Rightarrow> yt_dlp \<Rightarrow> pystr \<Rightarrow> pystr option \<Rightarrow> os_state
     \<Rightarrow> pyexc + (path \<times> pydict \<times> pystr \<times> os_state)"
where
  "retrieval_phase U Y url output_dir st =
     (if \<not> validate_url U url then
        Inl (PyExc ''ValueError'' (S ''Invalid YouTube URL: '' @ url))
      else
        (case ensure_directory U (requested_dir output_dir st) st of
           (Inl e, st1) \<Rightarrow> Inl e
         | (Inr output_dir1, st1) \<Rightarrow>
             (case Y (fst (configure U output_dir1 st1)) st1 of
                (Inl e, o0, st2) \<Rightarrow> Inl e
              | (Inr ydl, o0, st2) \<Rightarrow>
                  (case extract_info ydl url False st2 of
                     (Inl e, o2, st3) \<Rightarrow> Inl e
                   | (Inr info, o2, st3) \<Rightarrow>
                       (case get_video_duration_display U
                               (dict_get info ''duration'' (VInt 0)) of
                          Inl e \<Rightarrow> Inl e
                        | Inr duration_str \<Rightarrow>
                            (case extract_info ydl url True st3 of
                               (Inl e, o5, st4) \<Rightarrow> Inl e
                             | (Inr info', o5, st4) \<Rightarrow>
                                 (case prepare_filename ydl info' of
                                    Inl e \<Rightarrow> Inl e
                                  | Inr video_filename \<Rightarrow>
                                      Inr (output_dir1, info, video_filename, st4))))))))"

text \<open>
  The paths \<open>Path\<close> produces: the root is empty, \<open>/\<close> or \<open>//\<close>, and no component is
  empty, is \<open>.\<close> or holds a slash.
\<close>

definition wf_path :: "path \<Rightarrow> bool" where
  "wf_path p =
     (path_root p \<in> {[], [SEP], [SEP, SEP]}
      \<and> list_all (\<lambda>x. x \<noteq> [] \<and> x \<noteq> [DOT] \<and> SEP \<notin> set x) (path_tail p))"

section \<open>The command line (main, lines 212 to 236)\<close>









section \<open>Stand-ins used in the examples\<close>

text \<open>
  Modelled from the spec: \<open>utils.validate_url\<close> is not among the sources. The spec says
  the URL must pass a platform-specific URL-shape validation (host/domain and path pattern
  matching); this stand-in accepts the watch and short-link shapes of the platform.
\<close>

definition example_validate_url :: "pystr \<Rightarrow> bool" where
  "example_validate_url url =
     (prefix (S ''https://youtube.com/watch?v='') url
      \<or> prefix (S ''https://www.youtube.com/watch?v='') url
      \<or> prefix (S ''https://youtu.be/'') url)"

text \<open>
  Modelled from the spec: \<open>utils.format_file_size\<close> is not among the sources. The spec
  says sizes are shown human-readable, in units of B/KB/MB/GB; this stand-in shows whole
  units.
\<close>

definition example_format_file_size :: "pynum \<Rightarrow> pyexc + pystr" where
  "example_format_file_size n =
     (let b = (case n of PyInt i \<Rightarrow> nat i | PyFloat r \<Rightarrow> nat \<lfloor>r\<rfloor>) in
      if b < 1024 then Inr (str_nat b @ S '' B'')
      else if b < 1024 * 1024 then Inr (str_nat (b div 1024) @ S '' KB'')
      else if b < 1024 * 1024 * 1024 then Inr (str_nat (b div (1024 * 1024)) @ S '' MB'')
      else Inr (str_nat (b div (1024 * 1024 * 1024)) @ S '' GB''))"

text \<open>
  Modelled from the spec: \<open>utils.get_video_duration_display\<close> is not among the sources.
  The spec says the duration is an integer count of seconds; this stand-in shows minutes
  and seconds, and raises on anything that is not an integer.
\<close>

definition example_duration_display :: "pyval \<Rightarrow> pyexc + pystr" where
  "example_duration_display v =
     (case v of
        VInt i \<Rightarrow> Inr (str_nat (nat i div 60) @ S '':'' @ str_nat (nat i mod 60 div 10)
                       @ str_nat (nat i mod 10))
      | _ \<Rightarrow> Inl (PyExc ''TypeError'' (S ''unsupported operand type'')))"

text \<open>
  Modelled from the spec: \<open>utils.ensure_directory\<close> is not among the sources. The spec
  says the output directory is created if missing; this stand-in does so and returns the
  path it was given.
\<close>

definition example_ensure_directory :: "path \<Rightarrow> os_state \<Rightarrow> (pyexc + path) \<times> os_state" where
  "example_ensure_directory p st =
     (if path_exists (files st) p then (Inr p, st)
      else (Inr p, st\<lparr>files := (files st)(p \<mapsto> 0)\<rparr>))"

definition example_utils :: utils where
  "example_utils =
     \<lparr> validate_url = example_validate_url,
       format_file_size = example_format_file_size,
       get_video_duration_display = example_duration_display,
       ensure_directory = example_ensure_directory \<rparr>"

text \<open>
  A mocked retrieval library. The probe returns the metadata; the download fails with
  \<open>failure\<close> if one is given, and otherwise writes the files \<open>written\<close> and returns the
  metadata; \<open>prepare_filename\<close> answers \<open>video_filename\<close>.
\<close>

definition example_info :: pydict where
  "example_info =
     [''id'' \<mapsto> VStr (S ''abc''), ''title'' \<mapsto> VStr (S ''Demo''), ''duration'' \<mapsto> VInt 75]"

fun write_files :: "(path \<times> nat) list \<Rightarrow> filesystem \<Rightarrow> filesystem" where
  "write_files [] fs = fs"
| "write_files ((p, n) # ws) fs = write_files ws (fs(p \<mapsto> n))"

definition mock_ydl :: "pyexc option \<Rightarrow> (path \<times> nat) list \<Rightarrow> pystr \<Rightarrow> YoutubeDL" where
  "mock_ydl failure written video_filename =
     \<lparr> extract_info =
         (\<lambda>url download st.
            if \<not> download then (Inr example_info, [], st)
            else (case failure of
                    Some e \<Rightarrow> (Inl e, [], st)
                  | None \<Rightarrow> (Inr example_info, [], st\<lparr>files := write_files written (files st)\<rparr>))),
       prepare_filename = (\<lambda>info. Inr video_filename) \<rparr>"

definition mock_yt_dlp :: "pyexc option \<Rightarrow> (path \<times> nat) list \<Rightarrow> pystr \<Rightarrow> yt_dlp" where
  "mock_yt_dlp failure written video_filename opts st =
     (Inr (mock_ydl failure written video_filename), [], st)"

definition example_state :: os_state where
  "example_state = \<lparr> files = [Path (S ''/home/u'') \<mapsto> 0], cwd = Path (S ''/home/u'') \<rparr>"

definition example_url :: pystr where
  "example_url = S ''https://youtube.com/watch?v=Ckt1cj0xjRM''"


text \<open>
  The state after \<open>ensure_directory\<close> has created \<open>/out\<close> in \<open>example_state\<close> and the
  mocked download has written \<open>written\<close>.
\<close>

definition state_after :: "(path \<times> nat) list \<Rightarrow> os_state" where
  "state_after written =
     \<lparr> files = write_files written [Path (S ''/home/u'') \<mapsto> 0, Path (S ''/out'') \<mapsto> 0],
       cwd = Path (S ''/home/u'') \<rparr>"

definition example_video :: path where
  "example_video = Path (S ''/out/abc.mp4'')"

section \<open>Facts about paths\<close>

lemma S_simps: "S [] = []" "S (c # cs) = of_char c # S cs"
  by (simp_all add: S_def)

lemma length_S [simp]: "length (S cs) = length cs"
  by (simp add: S_def)

lemma split_sep_not_Nil [simp]: "split_sep cs \<noteq> []"
  by (induction cs) (auto split: list.splits)

lemma split_sep_no_sep: "w \<in> set (split_sep cs) \<Longrightarrow> SEP \<notin> set w"
proof (induction cs arbitrary: w)
  case Nil
  then show ?case by simp
next
  case (Cons c cs)
  then show ?case
    by (cases "split_sep cs") (auto split: if_splits)
qed

lemma split_sep_plain: "SEP \<notin> set cs \<Longrightarrow> split_sep cs = [cs]"
  by (induction cs) auto

text \<open>Every component of a parsed path is a proper file name.\<close>

lemma Path_tail_wf:
  assumes "x \<in> set (path_tail (Path s))"
  shows "x \<noteq> [] \<and> x \<noteq> [DOT] \<and> SEP \<notin> set x"
  using assms
  by (auto simp: Path_def split: prod.splits dest: split_sep_no_sep)

lemma Path_name_no_sep: "SEP \<notin> set (path_name (Path s))"
proof (cases "path_tail (Path s) = []")
  case True
  then show ?thesis by (simp add: path_name_def)
next
  case False
  then have "last (path_tail (Path s)) \<in> set (path_tail (Path s))"
    by simp
  then have "SEP \<notin> set (last (path_tail (Path s)))"
    using Path_tail_wf by blast
  with False show ?thesis
    by (simp add: path_name_def)
qed

lemma path_stem_subset: "set (path_stem p) \<subseteq> set (path_name p)"
  by (auto simp: path_stem_def Let_def split: option.splits dest: in_set_takeD)

lemma Path_single:
  assumes "SEP \<notin> set nm" and "nm \<noteq> []" and "nm \<noteq> [DOT]"
  shows "Path nm = PosixPath [] [nm]"
proof -
  from assms have "hd nm \<noteq> SEP"
    by (cases nm) auto
  then have "splitroot nm = ([], nm)"
    by (simp add: splitroot_def)
  with assms show ?thesis
    by (simp add: Path_def split_sep_plain)
qed

lemma stem_plus_suffix:
  "path_suffix p = [] \<Longrightarrow> path_stem p = path_name p"
  "path_suffix p \<noteq> [] \<Longrightarrow>
     take (length (path_name p) - length (path_suffix p)) (path_name p) = path_stem p"
  by (auto simp: path_suffix_def path_stem_def Let_def split: option.splits if_splits)

lemma with_suffix_sibling:
  assumes "path_name p \<noteq> []" and "SEP \<notin> set suf" and "suf \<noteq> []" and "hd suf = DOT"
    and "suf \<noteq> [DOT]"
  shows "with_suffix p suf = Inr (sibling p suf)"
proof (cases "path_suffix p = []")
  case True
  with assms show ?thesis
    by (simp add: with_suffix_def sibling_def Let_def stem_plus_suffix(1))
next
  case False
  with assms show ?thesis
    by (simp add: with_suffix_def sibling_def Let_def stem_plus_suffix(2))
qed

lemma en_vtt_suffix:
  "SEP \<notin> set (S ''.en.vtt'')" "S ''.en.vtt'' \<noteq> []" "hd (S ''.en.vtt'') = DOT"
  "S ''.en.vtt'' \<noteq> [DOT]"
  by (simp_all add: S_simps SEP_def DOT_def)

lemma vtt_suffix:
  "SEP \<notin> set (S ''.vtt'')" "S ''.vtt'' \<noteq> []" "hd (S ''.vtt'') = DOT"
  "S ''.vtt'' \<noteq> [DOT]"
  by (simp_all add: S_simps SEP_def DOT_def)

text \<open>
  The fallback of the loop, \<open>video_path.parent / f"{stem}.en.vtt"\<close>, is the path
  \<open>with_suffix(".en.vtt")\<close> has already given.
\<close>

lemma fallback_is_en_vtt:
  assumes "SEP \<notin> set (path_name p)"
  shows "joinpath (path_parent p) (path_stem p @ S ''.en.vtt'') = sibling p (S ''.en.vtt'')"
proof -
  have "SEP \<notin> set (path_stem p @ S ''.en.vtt'')"
    using assms path_stem_subset [of p] en_vtt_suffix(1) by auto
  moreover have "path_stem p @ S ''.en.vtt'' \<noteq> []"
    using en_vtt_suffix(2) by simp
  moreover have "length (path_stem p @ S ''.en.vtt'') \<noteq> length [DOT]"
    by simp
  then have "path_stem p @ S ''.en.vtt'' \<noteq> [DOT]"
    by metis
  ultimately have "Path (path_stem p @ S ''.en.vtt'') = PosixPath [] [path_stem p @ S ''.en.vtt'']"
    by (rule Path_single)
  then show ?thesis
    by (simp add: joinpath_def path_parent_def sibling_def)
qed

lemma find_subtitle_exts:
  assumes "path_name p \<noteq> []" and "SEP \<notin> set (path_name p)"
  shows "find_subtitle fs p subtitle_exts =
     Inr (if path_exists fs (sibling p (S ''.en.vtt'')) then Some (sibling p (S ''.en.vtt''))
          else if path_exists fs (sibling p (S ''.vtt'')) then Some (sibling p (S ''.vtt''))
          else None)"
proof -
  have en: "with_suffix p (S ''.en.vtt'') = Inr (sibling p (S ''.en.vtt''))"
    using assms(1) en_vtt_suffix by (rule with_suffix_sibling)
  have vtt: "with_suffix p (S ''.vtt'') = Inr (sibling p (S ''.vtt''))"
    using assms(1) vtt_suffix by (rule with_suffix_sibling)
  have fb: "joinpath (path_parent p) (path_stem p @ S ''.en.vtt'') = sibling p (S ''.en.vtt'')"
    using assms(2) by (rule fallback_is_en_vtt)
  show ?thesis
    by (simp add: subtitle_exts_def en vtt fb Let_def)
qed


section \<open>Paths and their text\<close>

lemma wf_Path: "wf_path (Path s)"
proof -
  have "fst (splitroot s) \<in> {[], [SEP], [SEP, SEP]}"
    by (simp add: splitroot_def Let_def)
  moreover have "list_all (\<lambda>x. x \<noteq> [] \<and> x \<noteq> [DOT] \<and> SEP \<notin> set x) (path_tail (Path s))"
    using Path_tail_wf [of _ s] by (simp add: list_all_iff)
  ultimately show ?thesis
    by (simp add: wf_path_def Path_def split: prod.splits)
qed

lemma split_sep_append:
  "SEP \<notin> set x \<Longrightarrow> split_sep (x @ SEP # ys) = x # split_sep ys"
  by (induction x) auto

lemma split_join_sep:
  assumes "comps \<noteq> []" and "list_all (\<lambda>x. SEP \<notin> set x) comps"
  shows "split_sep (join_sep comps) = comps"
  using assms
proof (induction comps rule: join_sep.induct)
  case 1
  then show ?case by simp
next
  case (2 x)
  then show ?case by (simp add: split_sep_plain)
next
  case (3 x y ys)
  then show ?case by (simp add: split_sep_append)
qed

lemma join_sep_hd:
  assumes "comps \<noteq> []" and "list_all (\<lambda>x. x \<noteq> [] \<and> SEP \<notin> set x) comps"
  shows "join_sep comps \<noteq> [] \<and> hd (join_sep comps) \<noteq> SEP"
proof (cases comps)
  case Nil
  with assms show ?thesis by simp
next
  case (Cons x xs)
  with assms have x: "x \<noteq> []" "SEP \<notin> set x" by simp_all
  then have "hd x \<noteq> SEP" by (cases x) auto
  with x Cons show ?thesis
    by (cases xs) simp_all
qed

lemma splitroot_rooted:
  assumes "rt \<in> {[], [SEP], [SEP, SEP]}" and "j \<noteq> []" and "hd j \<noteq> SEP"
  shows "splitroot (rt @ j) = (rt, j)"
proof -
  have dw: "dropWhile (\<lambda>c. c = SEP) j = j"
    using assms(2,3) by (cases j) auto
  from assms(1) consider "rt = []" | "rt = [SEP]" | "rt = [SEP, SEP]" by auto
  then show ?thesis
  proof cases
    case 1
    with assms show ?thesis by (simp add: splitroot_def)
  next
    case 2
    then show ?thesis by (simp add: splitroot_def dw)
  next
    case 3
    then show ?thesis by (simp add: splitroot_def dw)
  qed
qed

lemma splitroot_bare:
  assumes "rt \<in> {[SEP], [SEP, SEP]}"
  shows "splitroot rt = (rt, [])"
  using assms by (auto simp: splitroot_def)

text \<open>Parsing the text of a well-formed path gives the path back.\<close>

lemma Path_path_str:
  assumes "wf_path p"
  shows "Path (path_str p) = p"
proof (cases p)
  case (PosixPath rt comps)
  from assms PosixPath have rt: "rt \<in> {[], [SEP], [SEP, SEP]}"
    and comps: "list_all (\<lambda>x. x \<noteq> [] \<and> x \<noteq> [DOT] \<and> SEP \<notin> set x) comps"
    by (simp_all add: wf_path_def)
  show ?thesis
  proof (cases "comps = []")
    case True
    show ?thesis
    proof (cases "rt = []")
      case True
      with \<open>comps = []\<close> PosixPath show ?thesis
        by (simp add: path_str_def Path_def splitroot_def SEP_def DOT_def)
    next
      case False
      with rt have "rt \<in> {[SEP], [SEP, SEP]}" by simp
      then have "splitroot rt = (rt, [])" by (rule splitroot_bare)
      with False \<open>comps = []\<close> PosixPath show ?thesis
        by (simp add: path_str_def Path_def)
    qed
  next
    case False
    have comps1: "list_all (\<lambda>x. x \<noteq> [] \<and> SEP \<notin> set x) comps"
      and comps2: "list_all (\<lambda>x. SEP \<notin> set x) comps"
      using comps by (simp_all add: list_all_iff)
    have j: "join_sep comps \<noteq> [] \<and> hd (join_sep comps) \<noteq> SEP"
      using False comps1 by (rule join_sep_hd)
    then have sr: "splitroot (rt @ join_sep comps) = (rt, join_sep comps)"
      using rt by (simp add: splitroot_rooted)
    have sp: "split_sep (join_sep comps) = comps"
      using False comps2 by (rule split_join_sep)
    have fl: "filter (\<lambda>x. x \<noteq> [] \<and> x \<noteq> [DOT]) comps = comps"
      using comps by (simp add: list_all_iff filter_id_conv)
    from j have "join_sep comps \<noteq> []" by simp
    then show ?thesis
      using PosixPath sr sp fl by (simp add: path_str_def Path_def)
  qed
qed

lemma Path_path_str_Path: "Path (path_str (Path s)) = Path s"
  using wf_Path by (rule Path_path_str)


section \<open>Subtitle discovery\<close>


lemma simple_find_subtitle_eq:
  assumes "path_name p \<noteq> []"
  shows "simple_find_subtitle fs p =
     Inr (if path_exists fs (sibling p (S ''.en.vtt'')) then Some (sibling p (S ''.en.vtt''))
          else if path_exists fs (sibling p (S ''.vtt'')) then Some (sibling p (S ''.vtt''))
          else None)"
proof -
  have en: "with_suffix p (S ''.en.vtt'') = Inr (sibling p (S ''.en.vtt''))"
    using assms en_vtt_suffix by (rule with_suffix_sibling)
  have vtt: "with_suffix p (S ''.vtt'') = Inr (sibling p (S ''.vtt''))"
    using assms vtt_suffix by (rule with_suffix_sibling)
  show ?thesis
    by (simp add: simple_find_subtitle_def en vtt)
qed

lemma with_suffix_empty_name:
  assumes "path_name p = []" and "SEP \<notin> set suf" and "suf \<noteq> []" and "hd suf = DOT"
    and "suf \<noteq> [DOT]"
  shows "with_suffix p suf =
     Inl (PyExc ''ValueError''
            (S ''PosixPath('' @ [39] @ path_str p @ [39] @ S '') has an empty name''))"
  using assms by (simp add: with_suffix_def)


lemma example_video_path:
  "Path (S ''/out/abc.mp4'') = PosixPath [47] [[111, 117, 116], [97, 98, 99, 46, 109, 112, 52]]"
  by (simp add: Path_def splitroot_def S_simps SEP_def DOT_def)

lemma example_siblings:
  "sibling (Path (S ''/out/abc.mp4'')) (S ''.en.vtt'')
     = PosixPath [47] [[111, 117, 116], [97, 98, 99, 46, 101, 110, 46, 118, 116, 116]]"
  "sibling (Path (S ''/out/abc.mp4'')) (S ''.vtt'')
     = PosixPath [47] [[111, 117, 116], [97, 98, 99, 46, 118, 116, 116]]"
  "path_name (Path (S ''/out/abc.mp4'')) \<noteq> []"
  unfolding example_video_path
  by (simp_all add: sibling_def path_stem_def path_name_def S_simps DOT_def Let_def)


text \<open>
  C10. The loop looks at \<open><id>.en.vtt\<close> again while it handles \<open>.vtt\<close>, but that does
  not show: for every file system and every name the library gives for the video, the
  loop computes what the simpler search computes, which looks at \<open><id>.en.vtt\<close> first
  and at \<open><id>.vtt\<close> second and returns the first that exists, or \<open>None\<close>. (For a name
  without a last component both raise the same \<open>ValueError\<close>.)
\<close>

theorem find_subtitle_refines_simple:
  "find_subtitle fs (Path video_filename) subtitle_exts
     = simple_find_subtitle fs (Path video_filename)"
proof (cases "path_name (Path video_filename) = []")
  case True
  have "with_suffix (Path video_filename) (S ''.en.vtt'') =
     Inl (PyExc ''ValueError''
            (S ''PosixPath('' @ [39] @ path_str (Path video_filename) @ [39]
             @ S '') has an empty name''))"
    using True en_vtt_suffix by (rule with_suffix_empty_name)
  then show ?thesis
    by (simp add: subtitle_exts_def simple_find_subtitle_def)
next
  case False
  then show ?thesis
    using Path_name_no_sep [of video_filename]
    by (simp add: find_subtitle_exts simple_find_subtitle_eq)
qed


section \<open>Rejecting a URL\<close>

lemma example_rejects:
  "\<not> validate_url example_utils (S ''Sign in to confirm'')"
  by (simp add: example_utils_def example_validate_url_def S_simps)

text \<open>
  C1. When the URL does not pass \<open>validate_url\<close>, \<open>download_video\<close> raises a
  \<open>ValueError\<close> whose message carries the URL. Nothing has been written to standard
  output and the file system is the one the call started with: the check comes before
  \<open>ensure_directory\<close> and before every other effect.
\<close>

theorem invalid_url_raises_before_any_effect:
  assumes "\<not> validate_url U url"
  shows "download_video U Y url output_dir st =
           (Inl (PyExc ''ValueError'' (S ''Invalid YouTube URL: '' @ url)), [], st)"
  using assms by (simp add: download_video_def)

theorem invalid_url_raises_before_any_effect_witness:
  "\<not> validate_url example_utils (S ''Sign in to confirm'')
   \<and> download_video example_utils (mock_yt_dlp None [] (S ''/out/abc.mp4''))
        (S ''Sign in to confirm'') (Some (S ''/out'')) example_state
      = (Inl (PyExc ''ValueError'' (S ''Invalid YouTube URL: '' @ S ''Sign in to confirm'')),
         [], example_state)"
proof -
  have h: "\<not> validate_url example_utils (S ''Sign in to confirm'')"
    by (rule example_rejects)
  show ?thesis
    using h invalid_url_raises_before_any_effect [OF h] by simp
qed


section \<open>The cookie source\<close>


lemma base_opts_cookies [simp]:
  "cookiefile (base_opts U out) = None" "cookiesfrombrowser (base_opts U out) = None"
  by (simp_all add: base_opts_def)


lemmas path_eval =
  Path_def splitroot_def joinpath_def path_str_def path_name_def path_parent_def
  path_exists_def S_simps SEP_def DOT_def NL_def Let_def

lemma example_url_valid: "validate_url example_utils example_url"
  by (simp add: example_utils_def example_validate_url_def example_url_def S_simps)





section \<open>The result of a download\<close>

text \<open>
  What \<open>download_video\<close> returns and the state it leaves are those of the retrieval
  followed by \<open>collect_result\<close>.
\<close>

lemma download_video_after_retrieval:
  assumes "retrieval_phase U Y url output_dir st = Inr (out, info, video_filename, st')"
  shows "fst (download_video U Y url output_dir st) =
           fst (collect_result U (files st')
                  (dict_get info ''title'' (VStr (S ''Unknown'')))
                  (dict_get info ''duration'' (VInt 0))
                  (dict_get info ''id'' (VStr (S ''unknown''))) video_filename)"
    and "snd (snd (download_video U Y url output_dir st)) = st'"
  using assms
  by (auto simp: download_video_def retrieve_def download_video_try_def retrieval_phase_def
      Let_def split: prod.splits sum.splits if_splits)

lemma download_video_retrieval_fails:
  assumes "retrieval_phase U Y url output_dir st = Inl e"
  shows "fst (download_video U Y url output_dir st) = Inl e"
  using assms
  by (auto simp: download_video_def retrieve_def download_video_try_def retrieval_phase_def
      Let_def split: prod.splits sum.splits if_splits)


lemma collect_result_no_subtitle:
  assumes "path_name (Path video_filename) \<noteq> []"
    and "fs (Path video_filename) = Some n"
    and "\<not> path_exists fs (sibling (Path video_filename) (S ''.en.vtt''))"
    and "\<not> path_exists fs (sibling (Path video_filename) (S ''.vtt''))"
    and "format_file_size U (PyInt (int n)) = Inr size_str"
  shows "fst (collect_result U fs t d i video_filename) =
           Inr \<lparr> video_path = path_str (Path video_filename), subtitle_path = None,
                 title = t, duration = d, file_size = n, video_id = i \<rparr>"
proof -
  have "find_subtitle fs (Path video_filename) subtitle_exts = Inr None"
    using assms(1,3,4) Path_name_no_sep [of video_filename] by (simp add: find_subtitle_exts)
  then show ?thesis
    using assms(2,5) by (simp add: collect_result_def Let_def path_exists_def stat_st_size_def)
qed

lemma collect_result_success:
  assumes "fst (collect_result U fs t d i video_filename) = Inr r"
  shows "video_path r = path_str (Path video_filename)
         \<and> fs (Path video_filename) = Some (file_size r)"
  using assms
  by (auto simp: collect_result_def Let_def path_exists_def stat_st_size_def
      split: sum.splits if_splits option.splits)



lemma download_video_success_retrieval:
  assumes "download_video U Y url output_dir st = (Inr r, out, st')"
  shows "\<exists>od info video_filename.
           retrieval_phase U Y url output_dir st = Inr (od, info, video_filename, st')"
proof (cases "retrieval_phase U Y url output_dir st")
  case (Inl e)
  then have "fst (download_video U Y url output_dir st) = Inl e"
    by (rule download_video_retrieval_fails)
  with assms show ?thesis by simp
next
  case (Inr x)
  obtain od info video_filename st4 where x: "x = (od, info, video_filename, st4)"
    by (cases x) auto
  have "snd (snd (download_video U Y url output_dir st)) = st4"
    using Inr unfolding x by (rule download_video_after_retrieval(2))
  with assms have "st4 = st'" by simp
  with Inr x show ?thesis by simp
qed

lemma successful_result_names_file:
  assumes "download_video U Y url output_dir st = (Inr r, out, st')"
  shows "\<exists>video_filename. video_path r = path_str (Path video_filename)
           \<and> files st' (Path video_filename) = Some (file_size r)"
proof -
  obtain od info video_filename
    where ret: "retrieval_phase U Y url output_dir st = Inr (od, info, video_filename, st')"
    using download_video_success_retrieval [OF assms] by blast
  have "fst (collect_result U (files st')
                  (dict_get info ''title'' (VStr (S ''Unknown'')))
                  (dict_get info ''duration'' (VInt 0))
                  (dict_get info ''id'' (VStr (S ''unknown''))) video_filename) = Inr r"
    using download_video_after_retrieval(1) [OF ret] assms by simp
  then show ?thesis
    using collect_result_success by blast
qed

text \<open>
  C4. Whenever \<open>download_video\<close> returns a result, the \<open>video_path\<close> of the result,
  read as a path, names something that exists in the file system the call leaves behind,
  and \<open>file_size\<close> is the size the file system reports for it.
\<close>

theorem successful_result_matches_disk:
  assumes "download_video U Y url output_dir st = (Inr r, out, st')"
  shows "path_exists (files st') (Path (video_path r))
         \<and> stat_st_size (files st') (Path (video_path r)) = file_size r"
proof -
  obtain video_filename where "video_path r = path_str (Path video_filename)"
    and "files st' (Path video_filename) = Some (file_size r)"
    using successful_result_names_file [OF assms] by blast
  then show ?thesis
    by (simp add: Path_path_str_Path path_exists_def stat_st_size_def)
qed

section \<open>A mocked download, run\<close>

lemma example_retrieval:
  "retrieval_phase example_utils (mock_yt_dlp failure written video_filename) example_url
     (Some (S ''/out'')) example_state
   = (case failure of
        Some e \<Rightarrow> Inl e
      | None \<Rightarrow> Inr (Path (S ''/out''), example_info, video_filename, state_after written))"
proof -
  have ens: "ensure_directory example_utils (requested_dir (Some (S ''/out'')) example_state)
      example_state = (Inr (Path (S ''/out'')), state_after [])"
    by (simp add: example_utils_def example_ensure_directory_def requested_dir_def
        example_state_def state_after_def path_eval)
  have dur: "get_video_duration_display example_utils
      (dict_get example_info ''duration'' (VInt 0)) = Inr (S ''1:15'')"
    by (simp add: example_utils_def example_duration_display_def dict_get_def
        example_info_def str_nat.simps S_simps)
  show ?thesis
    by (simp add: retrieval_phase_def example_url_valid ens dur mock_yt_dlp_def mock_ydl_def
        state_after_def split: option.splits)
qed

lemma example_video_facts:
  "path_name (Path (S ''/out/abc.mp4'')) \<noteq> []"
  "files (state_after [(example_video, 1000)]) (Path (S ''/out/abc.mp4'')) = Some 1000"
  "\<not> path_exists (files (state_after [(example_video, 1000)]))
       (sibling (Path (S ''/out/abc.mp4'')) (S ''.en.vtt''))"
  "\<not> path_exists (files (state_after [(example_video, 1000)]))
       (sibling (Path (S ''/out/abc.mp4'')) (S ''.vtt''))"
  "\<not> path_exists (files (state_after [])) (Path (S ''/out/abc.mp4''))"
  "format_file_size example_utils (PyInt (int 1000)) = Inr (S ''1000 B'')"
     apply (rule example_siblings(3))
    apply (simp_all add: example_siblings state_after_def example_video_def path_exists_def)
    apply (simp_all add: path_eval example_utils_def example_format_file_size_def
      str_nat.simps)
  done

lemma example_result_fields:
  "path_str (Path (S ''/out/abc.mp4'')) = S ''/out/abc.mp4''"
  "dict_get example_info ''title'' (VStr (S ''Unknown'')) = VStr (S ''Demo'')"
  "dict_get example_info ''duration'' (VInt 0) = VInt 75"
  "dict_get example_info ''id'' (VStr (S ''unknown'')) = VStr (S ''abc'')"
  by (simp_all add: path_eval dict_get_def example_info_def)



theorem successful_result_matches_disk_witness:
  "download_video example_utils
      (mock_yt_dlp None [(example_video, 1000)] (S ''/out/abc.mp4''))
      example_url (Some (S ''/out'')) example_state
     = (Inr \<lparr> video_path = S ''/out/abc.mp4'', subtitle_path = None,
              title = VStr (S ''Demo''), duration = VInt 75, file_size = 1000,
              video_id = VStr (S ''abc'') \<rparr>,
        fst (snd (download_video example_utils
                   (mock_yt_dlp None [(example_video, 1000)] (S ''/out/abc.mp4''))
                   example_url (Some (S ''/out'')) example_state)),
        state_after [(example_video, 1000)])
   \<and> path_exists (files (state_after [(example_video, 1000)])) (Path (S ''/out/abc.mp4''))
   \<and> stat_st_size (files (state_after [(example_video, 1000)])) (Path (S ''/out/abc.mp4''))
       = 1000"
proof -
  let ?run = "download_video example_utils
      (mock_yt_dlp None [(example_video, 1000)] (S ''/out/abc.mp4''))
      example_url (Some (S ''/out'')) example_state"
  let ?r = "\<lparr> video_path = S ''/out/abc.mp4'', subtitle_path = None,
              title = VStr (S ''Demo''), duration = VInt 75, file_size = 1000,
              video_id = VStr (S ''abc'') \<rparr>"
  have r: "retrieval_phase example_utils
      (mock_yt_dlp None [(example_video, 1000)] (S ''/out/abc.mp4''))
      example_url (Some (S ''/out'')) example_state
     = Inr (Path (S ''/out''), example_info, S ''/out/abc.mp4'',
            state_after [(example_video, 1000)])"
    by (simp add: example_retrieval)
  have "fst ?run = Inr ?r"
    unfolding download_video_after_retrieval(1) [OF r]
    using collect_result_no_subtitle [OF example_video_facts(1-4,6)]
    by (simp only: example_result_fields)
  moreover have "snd (snd ?run) = state_after [(example_video, 1000)]"
    using r by (rule download_video_after_retrieval(2))
  ultimately have h: "?run = (Inr ?r, fst (snd ?run), state_after [(example_video, 1000)])"
    by (simp add: prod_eq_iff)
  show ?thesis
    using h successful_result_matches_disk [OF h] by simp
qed


section \<open>Failures and the advice about cookies\<close>











section \<open>The command line\<close>





end
